theory Spec2Isabelle
  imports Main
begin

section \<open>The contract gateway of SmartContractProvider.tsx\<close>

text \<open>
  The component keeps two pieces of React state, \<open>provider\<close> and \<open>contract\<close>, both
  \<open>null\<close> until the effect \<open>init\<close> has run, and publishes nine asynchronous accessors
  that forward to the ethers contract handle inside a \<open>try\<close>/\<open>catch\<close>.

  The ethers library, the interface schema \<open>abi.json\<close> and the chain are not part of the
  source file. They are taken as a parameter: a record of the library entry points the
  component calls. Everything the component itself does (the guard on \<open>contract\<close>, the
  order of the calls, the conversion of fields, the \<open>catch\<close> block with its
  \<open>console.error\<close>, the value returned) is modelled from the source.
\<close>

subsection \<open>Values\<close>

text \<open>
  The JavaScript values that travel through the accessors. \<open>BigNumber\<close> is the ethers
  arbitrary-precision integer, \<open>JObject\<close> an object read by property name (a decoded
  result tuple, or the object literal built by \<open>users\<close>), \<open>TransactionResponse\<close> the
  record a mutating contract method resolves to, identified by its hash.
\<close>

datatype jsval =
    JNull
  | JUndefined
  | JBool bool
  | JNumber int
  | JString string
  | BigNumber int
  | JArray "jsval list"
  | JObject "(string \<times> jsval) list"
  | TransactionResponse nat

text \<open>What a \<open>throw\<close> carries: a TypeError of the language, an \<open>Error\<close> made with
  \<open>new Error(msg)\<close>, or a fault raised inside the library (a revert, a network fault, an
  overflow).\<close>

datatype exn = TypeError string | Error string | LibraryFault string

text \<open>How an awaited promise ends: with a value, with an exception thrown at the
  \<open>await\<close>, or never (a hung network call).\<close>

datatype 'a settled = Resolved 'a | Rejected exn | Pending

datatype provider = JsonRpcProvider string

datatype signer = JsonRpcSigner provider

datatype runner = Detached | Reader provider | Writer signer

datatype contract = Contract (address: string) (runner: runner)

subsection \<open>The library and the chain, as a parameter\<close>

text \<open>
  \<open>'w\<close> is the state of the world outside the component (the chain, the node).
  \<^item> \<open>newJsonRpcProvider url\<close> is \<open>new ethers.providers.JsonRpcProvider(url)\<close>;
  \<^item> \<open>newContract addr p\<close> is \<open>new ethers.Contract(addr, abi, p)\<close>, with the bundled
    schema \<open>abi\<close> fixed inside the library parameter;
  \<^item> \<open>getSigner p\<close> is \<open>p.getSigner()\<close>;
  \<^item> \<open>connect c s\<close> is \<open>c.connect(s)\<close>, where \<open>s\<close> may be \<open>undefined\<close> (\<open>None\<close>);
  \<^item> \<open>invoke c name params w\<close> is \<open>await c[name](...params)\<close> in world \<open>w\<close>: the
    settlement and the world afterwards. A name that is no function of the handle
    settles as \<open>Rejected (TypeError _)\<close>, like every other throw;
  \<^item> \<open>wait h w\<close> is \<open>await tx.wait()\<close> for the transaction response with hash \<open>h\<close>.
\<close>

record 'w ethers =
  newJsonRpcProvider :: "string \<Rightarrow> exn + provider"
  newContract :: "string \<Rightarrow> provider \<Rightarrow> exn + contract"
  getSigner :: "provider \<Rightarrow> exn + signer"
  connect :: "contract \<Rightarrow> signer option \<Rightarrow> exn + contract"
  invoke :: "contract \<Rightarrow> string \<Rightarrow> jsval list \<Rightarrow> 'w \<Rightarrow> jsval settled \<times> 'w"
  wait :: "nat \<Rightarrow> 'w \<Rightarrow> jsval settled \<times> 'w"

subsection \<open>State\<close>

text \<open>
  \<open>provider\<close> and \<open>contract\<close> are the two \<open>useState\<close> cells (\<open>None\<close> is \<open>null\<close>);
  \<open>console\<close> collects the calls of \<open>console.error(message, error)\<close> in order;
  \<open>world\<close> is the state of the world outside.
\<close>

record 'w gateway =
  provider :: "provider option"
  contract :: "contract option"
  console :: "(string \<times> exn) list"
  world :: 'w

definition CONTRACT_ADDRESS :: string where
  "CONTRACT_ADDRESS = ''0xb2e1eD3394AC2191313A4a9Fcb5B52C4d3c046eF''"

definition INFURA_PROJECT_ID :: string where
  "INFURA_PROJECT_ID = ''54342a1556274e579ef82ed1022b7a7c''"

text \<open>The component as first rendered: \<open>useState(null)\<close> twice.\<close>

definition mounted :: "'w \<Rightarrow> 'w gateway" where
  "mounted w = \<lparr>provider = None, contract = None, console = [], world = w\<rparr>"

text \<open>\<open>console.error(message, error)\<close>.\<close>

definition console_error :: "string \<Rightarrow> exn \<Rightarrow> 'w gateway \<Rightarrow> 'w gateway" where
  "console_error message err g = g\<lparr>console := console g @ [(message, err)]\<rparr>"

text \<open>
  The effect \<open>init\<close>: \<open>setProvider\<close> runs before the contract is built, so a throw of the
  contract constructor leaves the provider set and the contract unset.
\<close>

definition init :: "'w ethers \<Rightarrow> 'w gateway \<Rightarrow> 'w gateway" where
  "init lib g =
     (case newJsonRpcProvider lib (''https://bsc-testnet.infura.io/v3/'' @ INFURA_PROJECT_ID) of
        Inl err \<Rightarrow> console_error ''Error initializing provider or contract:'' err g
      | Inr infuraProvider \<Rightarrow>
          (case newContract lib CONTRACT_ADDRESS infuraProvider of
             Inl err \<Rightarrow>
               console_error ''Error initializing provider or contract:'' err
                 (g\<lparr>provider := Some infuraProvider\<rparr>)
           | Inr contractInstance \<Rightarrow>
               g\<lparr>provider := Some infuraProvider, contract := Some contractInstance\<rparr>))"

subsection \<open>Asynchronous control flow\<close>

text \<open>\<open>const v = await p; rest\<close>: the rest runs only when \<open>p\<close> resolves.\<close>

definition await :: "'a settled \<times> 'w \<Rightarrow> ('a \<Rightarrow> 'w \<Rightarrow> 'b settled \<times> 'w) \<Rightarrow> 'b settled \<times> 'w" where
  "await p rest =
     (case p of
        (Resolved v, w) \<Rightarrow> rest v w
      | (Rejected err, w) \<Rightarrow> (Rejected err, w)
      | (Pending, w) \<Rightarrow> (Pending, w))"

text \<open>\<open>return e\<close> for a synchronous expression \<open>e\<close> that may throw.\<close>

definition returns :: "exn + 'a \<Rightarrow> 'w \<Rightarrow> 'a settled \<times> 'w" where
  "returns r w = (case r of Inl err \<Rightarrow> (Rejected err, w) | Inr v \<Rightarrow> (Resolved v, w))"

text \<open>Sequencing of synchronous expressions: the first throw ends the evaluation.\<close>

definition and_then :: "exn + 'a \<Rightarrow> ('a \<Rightarrow> exn + 'b) \<Rightarrow> exn + 'b" where
  "and_then r f = (case r of Inl err \<Rightarrow> Inl err | Inr v \<Rightarrow> f v)"

text \<open>
  \<open>try { body } catch (error) { console.error(message, error); return null; }\<close>:
  a body that throws is logged once and the accessor resolves to \<open>null\<close>; a body that
  resolves or hangs is passed on.
\<close>

definition try_catch :: "string \<Rightarrow> jsval settled \<times> 'w \<Rightarrow> 'w gateway \<Rightarrow> jsval settled \<times> 'w gateway" where
  "try_catch message body g =
     (case body of
        (Rejected err, w) \<Rightarrow> (Resolved JNull, console_error message err (g\<lparr>world := w\<rparr>))
      | (Resolved v, w) \<Rightarrow> (Resolved v, g\<lparr>world := w\<rparr>)
      | (Pending, w) \<Rightarrow> (Pending, g\<lparr>world := w\<rparr>))"

subsection \<open>Property reads and method calls on values\<close>

text \<open>
  \<open>v.key\<close> for the data properties the component reads (\<open>id\<close>, \<open>referrer\<close>,
  \<open>partnersCount\<close>, \<open>registrationTime\<close>; none is a built-in property of a primitive):
  a read on \<open>null\<close> or \<open>undefined\<close> throws, a missing property is \<open>undefined\<close>.
\<close>

fun get_property :: "jsval \<Rightarrow> string \<Rightarrow> exn + jsval" where
  "get_property JNull key = Inl (TypeError (''Cannot read properties of null (reading '' @ key @ '')''))"
| "get_property JUndefined key = Inl (TypeError (''Cannot read properties of undefined (reading '' @ key @ '')''))"
| "get_property (JObject props) key = Inr (case map_of props key of Some v \<Rightarrow> v | None \<Rightarrow> JUndefined)"
| "get_property v key = Inr JUndefined"

definition MAX_SAFE_INTEGER :: int where
  "MAX_SAFE_INTEGER = 2 ^ 53 - 1"

text \<open>
  Modelled from the spec: \<open>BigNumber.toNumber\<close>, the method behind \<open>v.toNumber()\<close>,
  belongs to the ethers library, which is not under src/. The spec has it convert an
  arbitrary-precision integer losslessly to a standard integer for values within standard
  integer range, here the safe integers of a JavaScript number; outside that range the
  library raises an overflow fault. On any value that is not a BigNumber the call is a
  TypeError of the language (\<open>toNumber\<close> is not a function of it).
\<close>

fun toNumber :: "jsval \<Rightarrow> exn + jsval" where
  "toNumber (BigNumber n) =
     (if - MAX_SAFE_INTEGER \<le> n \<and> n \<le> MAX_SAFE_INTEGER then Inr (JNumber n)
      else Inl (LibraryFault ''overflow''))"
| "toNumber JNull = Inl (TypeError ''Cannot read properties of null (reading toNumber)'')"
| "toNumber JUndefined = Inl (TypeError ''Cannot read properties of undefined (reading toNumber)'')"
| "toNumber v = Inl (TypeError ''toNumber is not a function'')"

text \<open>\<open>await tx.wait()\<close>: only a transaction response has the method.\<close>

fun tx_wait :: "'w ethers \<Rightarrow> jsval \<Rightarrow> 'w \<Rightarrow> jsval settled \<times> 'w" where
  "tx_wait lib (TransactionResponse h) w = wait lib h w"
| "tx_wait lib JNull w = (Rejected (TypeError ''Cannot read properties of null (reading wait)''), w)"
| "tx_wait lib JUndefined w = (Rejected (TypeError ''Cannot read properties of undefined (reading wait)''), w)"
| "tx_wait lib v w = (Rejected (TypeError ''tx.wait is not a function''), w)"

text \<open>\<open>provider?.getSigner()\<close>: \<open>undefined\<close> when the provider is \<open>null\<close>.\<close>

definition optional_getSigner :: "'w ethers \<Rightarrow> provider option \<Rightarrow> exn + signer option" where
  "optional_getSigner lib p =
     (case p of
        None \<Rightarrow> Inr None
      | Some q \<Rightarrow> and_then (getSigner lib q) (\<lambda>s. Inr (Some s)))"

subsection \<open>The accessors\<close>

definition fetchData :: "'w ethers \<Rightarrow> 'w gateway \<Rightarrow> string \<Rightarrow> jsval list \<Rightarrow> jsval settled \<times> 'w gateway" where
  "fetchData lib g methodName params =
     (case contract g of
        None \<Rightarrow> (Resolved JNull, g)
      | Some c \<Rightarrow>
          try_catch (''Error fetching data from '' @ methodName @ '':'')
            (await (invoke lib c methodName params (world g)) (\<lambda>result. returns (Inr result)))
            g)"

definition writeData :: "'w ethers \<Rightarrow> 'w gateway \<Rightarrow> string \<Rightarrow> jsval list \<Rightarrow> jsval settled \<times> 'w gateway" where
  "writeData lib g methodName params =
     (case contract g of
        None \<Rightarrow> (Resolved JNull, g)
      | Some c \<Rightarrow>
          try_catch (''Error writing data to '' @ methodName @ '':'')
            (case and_then (optional_getSigner lib (provider g)) (connect lib c) of
               Inl err \<Rightarrow> (Rejected err, world g)
             | Inr contractWithSigner \<Rightarrow>
                 await (invoke lib contractWithSigner methodName params (world g)) (\<lambda>tx w.
                 await (tx_wait lib tx w) (\<lambda>receipt.
                 returns (Inr tx))))
            g)"

text \<open>The object literal of \<open>users\<close>, its fields evaluated in source order.\<close>

definition userData :: "jsval \<Rightarrow> exn + jsval" where
  "userData result =
     and_then (and_then (get_property result ''id'') toNumber) (\<lambda>id_number.
     and_then (get_property result ''referrer'') (\<lambda>referrer.
     and_then (and_then (get_property result ''partnersCount'') toNumber) (\<lambda>partnersCount.
     and_then (and_then (get_property result ''registrationTime'') toNumber) (\<lambda>registrationTime.
     Inr (JObject
       [(''id'', id_number),
        (''referrer'', referrer),
        (''partnersCount'', partnersCount),
        (''registrationTime'', registrationTime)])))))"

definition users :: "'w ethers \<Rightarrow> 'w gateway \<Rightarrow> string \<Rightarrow> jsval settled \<times> 'w gateway" where
  "users lib g userAddress =
     (case contract g of
        None \<Rightarrow> (Resolved JNull, g)
      | Some c \<Rightarrow>
          try_catch ''Error fetching user details:''
            (await (invoke lib c ''users'' [JString userAddress] (world g)) (\<lambda>result.
             returns (userData result)))
            g)"

definition usersActiveX3Levels :: "'w ethers \<Rightarrow> 'w gateway \<Rightarrow> string \<Rightarrow> int \<Rightarrow> jsval settled \<times> 'w gateway" where
  "usersActiveX3Levels lib g userAddress level =
     (case contract g of
        None \<Rightarrow> (Resolved JNull, g)
      | Some c \<Rightarrow>
          try_catch ''Error fetching usersActiveX3Levels:''
            (await (invoke lib c ''usersActiveX3Levels'' [JString userAddress, JNumber level] (world g))
               (\<lambda>result. returns (Inr result)))
            g)"

definition usersActiveX4Levels :: "'w ethers \<Rightarrow> 'w gateway \<Rightarrow> string \<Rightarrow> int \<Rightarrow> jsval settled \<times> 'w gateway" where
  "usersActiveX4Levels lib g userAddress level =
     (case contract g of
        None \<Rightarrow> (Resolved JNull, g)
      | Some c \<Rightarrow>
          try_catch ''Error fetching usersActiveX4Levels:''
            (await (invoke lib c ''usersActiveX4Levels'' [JString userAddress, JNumber level] (world g))
               (\<lambda>result. returns (Inr result)))
            g)"

definition userX3Matrix :: "'w ethers \<Rightarrow> 'w gateway \<Rightarrow> string \<Rightarrow> int \<Rightarrow> jsval settled \<times> 'w gateway" where
  "userX3Matrix lib g userAddress level =
     (case contract g of
        None \<Rightarrow> (Resolved JNull, g)
      | Some c \<Rightarrow>
          try_catch ''Error fetching usersX3Matrix:''
            (await (invoke lib c ''usersX3Matrix'' [JString userAddress, JNumber level] (world g))
               (\<lambda>result. returns (Inr result)))
            g)"

definition userX4Matrix :: "'w ethers \<Rightarrow> 'w gateway \<Rightarrow> string \<Rightarrow> int \<Rightarrow> jsval settled \<times> 'w gateway" where
  "userX4Matrix lib g userAddress level =
     (case contract g of
        None \<Rightarrow> (Resolved JNull, g)
      | Some c \<Rightarrow>
          try_catch ''Error fetching userX4Matrix:''
            (await (invoke lib c ''usersX4Matrix'' [JString userAddress, JNumber level] (world g))
               (\<lambda>result. returns (toNumber result)))
            g)"

definition getTotalCycles :: "'w ethers \<Rightarrow> 'w gateway \<Rightarrow> string \<Rightarrow> int \<Rightarrow> int \<Rightarrow> jsval settled \<times> 'w gateway" where
  "getTotalCycles lib g userAddress matrix level =
     (case contract g of
        None \<Rightarrow> (Resolved JNull, g)
      | Some c \<Rightarrow>
          try_catch ''Error fetching total cycles:''
            (await (invoke lib c ''getTotalCycles'' [JString userAddress, JNumber matrix, JNumber level] (world g))
               (\<lambda>cycles. returns (toNumber cycles)))
            g)"

definition getPartnerCount :: "'w ethers \<Rightarrow> 'w gateway \<Rightarrow> string \<Rightarrow> int \<Rightarrow> int \<Rightarrow> jsval settled \<times> 'w gateway" where
  "getPartnerCount lib g userAddress matrix level =
     (case contract g of
        None \<Rightarrow> (Resolved JNull, g)
      | Some c \<Rightarrow>
          try_catch ''Error fetching partner count:''
            (await (invoke lib c ''getPartnerCount'' [JString userAddress, JNumber matrix, JNumber level] (world g))
               (\<lambda>partnerCount. returns (toNumber partnerCount)))
            g)"

subsection \<open>The context and its hook\<close>

text \<open>
  The value the component hands to \<open>SmartContractContext.Provider\<close> in a render that sees
  the state \<open>g\<close>: the nine accessors, closed over that state, and \<open>provider\<close>.
\<close>

record 'w SmartContractContextType =
  ctx_fetchData :: "string \<Rightarrow> jsval list \<Rightarrow> jsval settled \<times> 'w gateway"
  ctx_writeData :: "string \<Rightarrow> jsval list \<Rightarrow> jsval settled \<times> 'w gateway"
  ctx_users :: "string \<Rightarrow> jsval settled \<times> 'w gateway"
  ctx_usersActiveX3Levels :: "string \<Rightarrow> int \<Rightarrow> jsval settled \<times> 'w gateway"
  ctx_usersActiveX4Levels :: "string \<Rightarrow> int \<Rightarrow> jsval settled \<times> 'w gateway"
  ctx_userX3Matrix :: "string \<Rightarrow> int \<Rightarrow> jsval settled \<times> 'w gateway"
  ctx_userX4Matrix :: "string \<Rightarrow> int \<Rightarrow> jsval settled \<times> 'w gateway"
  ctx_getPartnerCount :: "string \<Rightarrow> int \<Rightarrow> int \<Rightarrow> jsval settled \<times> 'w gateway"
  ctx_getTotalCycles :: "string \<Rightarrow> int \<Rightarrow> int \<Rightarrow> jsval settled \<times> 'w gateway"
  ctx_provider :: "provider option"

definition SmartContractProvider :: "'w ethers \<Rightarrow> 'w gateway \<Rightarrow> 'w SmartContractContextType" where
  "SmartContractProvider lib g =
     \<lparr>ctx_fetchData = fetchData lib g,
      ctx_writeData = writeData lib g,
      ctx_users = users lib g,
      ctx_usersActiveX3Levels = usersActiveX3Levels lib g,
      ctx_usersActiveX4Levels = usersActiveX4Levels lib g,
      ctx_userX3Matrix = userX3Matrix lib g,
      ctx_userX4Matrix = userX4Matrix lib g,
      ctx_getPartnerCount = getPartnerCount lib g,
      ctx_getTotalCycles = getTotalCycles lib g,
      ctx_provider = provider g\<rparr>"

text \<open>
  \<open>useSmartContract\<close>. Its argument is what \<open>useContext(SmartContractContext)\<close> yields:
  the value of the nearest provider component, or the default \<open>undefined\<close> (\<open>None\<close>)
  of \<open>createContext\<close> when none is mounted above the caller.
\<close>

definition useSmartContract :: "'w SmartContractContextType option \<Rightarrow> exn + 'w SmartContractContextType" where
  "useSmartContract ctx =
     (case ctx of
        None \<Rightarrow> Inl (Error ''useSmartContract must be used within a SmartContractProvider'')
      | Some v \<Rightarrow> Inr v)"

subsection \<open>Sample libraries\<close>

text \<open>
  Concrete instances of the library parameter, on which the theorems below are
  exercised. The world is the number of requests the node has served.
  \<open>testnet\<close> answers the read methods of the schema and accepts \<open>registrationExt\<close> from a
  signing handle; \<open>offline\<close> fails every call; \<open>reverting\<close> accepts a transaction whose
  confirmation then fails; \<open>stalled\<close> accepts a transaction that is never confirmed;
  \<open>unsigned\<close> cannot attach a signer; \<open>misconfigured\<close> cannot build the contract handle.
\<close>

definition testnet :: "nat ethers" where
  "testnet =
     \<lparr>newJsonRpcProvider = (\<lambda>url. Inr (JsonRpcProvider url)),
      newContract = (\<lambda>addr p. Inr (Contract addr (Reader p))),
      getSigner = (\<lambda>p. Inr (JsonRpcSigner p)),
      connect = (\<lambda>c s. Inr (Contract (address c) (case s of None \<Rightarrow> Detached | Some k \<Rightarrow> Writer k))),
      invoke = (\<lambda>c name params w.
        if name = ''users'' then
          (Resolved (JObject
             [(''id'', BigNumber 7),
              (''referrer'', JString ''0x1111''),
              (''partnersCount'', BigNumber 3),
              (''registrationTime'', BigNumber 1700000000)]), Suc w)
        else if name = ''usersActiveX3Levels'' then (Resolved (JBool True), Suc w)
        else if name = ''usersActiveX4Levels'' then (Resolved (JBool False), Suc w)
        else if name = ''usersX3Matrix'' then
          (Resolved (JObject
             [(''currentReferrer'', JString ''0x1111''),
              (''referrals'', JArray [JString ''0x2222'']),
              (''blocked'', JBool False)]), Suc w)
        else if name = ''usersX4Matrix'' then (Resolved (BigNumber 2), Suc w)
        else if name = ''getTotalCycles'' then (Resolved (BigNumber 5), Suc w)
        else if name = ''getPartnerCount'' then (Resolved (BigNumber (2 ^ 60)), Suc w)
        else if name = ''registrationExt'' then
          (case runner c of
             Writer k \<Rightarrow> (Resolved (TransactionResponse 42), Suc w)
           | _ \<Rightarrow> (Rejected (LibraryFault ''sending a transaction requires a signer''), w))
        else (Rejected (TypeError ''contract[methodName] is not a function''), w)),
      wait = (\<lambda>h w. (Resolved (JObject [(''status'', JNumber 1)]), Suc w))\<rparr>"

definition offline :: "nat ethers" where
  "offline = testnet\<lparr>invoke := (\<lambda>c name params w. (Rejected (LibraryFault ''could not detect network''), w))\<rparr>"

definition reverting :: "nat ethers" where
  "reverting = testnet\<lparr>wait := (\<lambda>h w. (Rejected (LibraryFault ''transaction failed''), Suc w))\<rparr>"

definition stalled :: "nat ethers" where
  "stalled = testnet\<lparr>wait := (\<lambda>h w. (Pending, w))\<rparr>"

definition unsigned :: "nat ethers" where
  "unsigned = testnet\<lparr>getSigner := (\<lambda>p. Inl (LibraryFault ''unknown account''))\<rparr>"

definition misconfigured :: "nat ethers" where
  "misconfigured = testnet\<lparr>newContract := (\<lambda>addr p. Inl (LibraryFault ''invalid fragment''))\<rparr>"

text \<open>The gateway after \<open>init\<close> on the test network, from a fresh mount, with the
  handles it holds and the signing handle \<open>writeData\<close> derives from them.\<close>

definition ready :: "nat gateway" where
  "ready = init testnet (mounted 0)"

definition endpoint :: provider where
  "endpoint = JsonRpcProvider (''https://bsc-testnet.infura.io/v3/'' @ INFURA_PROJECT_ID)"

definition handle :: contract where
  "handle = Contract CONTRACT_ADDRESS (Reader endpoint)"

definition signing_handle :: contract where
  "signing_handle = Contract CONTRACT_ADDRESS (Writer (JsonRpcSigner endpoint))"


section \<open>Control-flow lemmas\<close>

lemma try_catch_Rejected:
  "try_catch message (Rejected err, w) g =
     (Resolved JNull, g\<lparr>world := w, console := console g @ [(message, err)]\<rparr>)"
  by (simp add: try_catch_def console_error_def)

lemma try_catch_Resolved:
  "try_catch message (Resolved v, w) g = (Resolved v, g\<lparr>world := w\<rparr>)"
  by (simp add: try_catch_def)

lemma try_catch_Pending:
  "try_catch message (Pending, w) g = (Pending, g\<lparr>world := w\<rparr>)"
  by (simp add: try_catch_def)

lemma await_Resolved: "await (Resolved v, w) rest = rest v w"
  by (simp add: await_def)

lemma await_Rejected: "await (Rejected err, w) rest = (Rejected err, w)"
  by (simp add: await_def)

lemma await_Pending: "await (Pending, w) rest = (Pending, w)"
  by (simp add: await_def)

lemma returns_Inr: "returns (Inr v) w = (Resolved v, w)"
  by (simp add: returns_def)

lemma returns_Inl: "returns (Inl err) w = (Rejected err, w)"
  by (simp add: returns_def)

lemmas flow = try_catch_Rejected try_catch_Resolved try_catch_Pending
  await_Resolved await_Rejected await_Pending returns_Inr returns_Inl

lemmas accessor_defs = fetchData_def writeData_def users_def usersActiveX3Levels_def
  usersActiveX4Levels_def userX3Matrix_def userX4Matrix_def getTotalCycles_def
  getPartnerCount_def

lemma ready_eq:
  "ready = \<lparr>provider = Some endpoint, contract = Some handle, console = [], world = 0\<rparr>"
  by (simp add: ready_def init_def testnet_def mounted_def endpoint_def handle_def)

lemma signing_handle_derived:
  "and_then (optional_getSigner testnet (Some endpoint)) (connect testnet handle) = Inr signing_handle"
  by (simp add: and_then_def optional_getSigner_def testnet_def handle_def signing_handle_def)

section \<open>The guard on the contract handle\<close>

text \<open>
  C1. While the contract handle is unset (before \<open>init\<close> has run, or after it failed),
  each of the nine accessors resolves to \<open>null\<close>, whatever its arguments and whatever the
  library would do; it does not throw, logs nothing and touches nothing.
\<close>

theorem unset_contract_gives_null:
  assumes "contract g = None"
  shows "fetchData lib g methodName params = (Resolved JNull, g)
       \<and> writeData lib g methodName params = (Resolved JNull, g)
       \<and> users lib g userAddress = (Resolved JNull, g)
       \<and> usersActiveX3Levels lib g userAddress level = (Resolved JNull, g)
       \<and> usersActiveX4Levels lib g userAddress level = (Resolved JNull, g)
       \<and> userX3Matrix lib g userAddress level = (Resolved JNull, g)
       \<and> userX4Matrix lib g userAddress level = (Resolved JNull, g)
       \<and> getTotalCycles lib g userAddress matrix level = (Resolved JNull, g)
       \<and> getPartnerCount lib g userAddress matrix level = (Resolved JNull, g)"
  using assms by (simp add: accessor_defs)

lemma init_failure_leaves_contract_unset:
  "newJsonRpcProvider lib (''https://bsc-testnet.infura.io/v3/'' @ INFURA_PROJECT_ID) = Inl err
     \<or> (\<exists>p. newJsonRpcProvider lib (''https://bsc-testnet.infura.io/v3/'' @ INFURA_PROJECT_ID) = Inr p
            \<and> newContract lib CONTRACT_ADDRESS p = Inl err)
   \<Longrightarrow> contract g = None \<Longrightarrow> contract (init lib g) = None"
  by (auto simp: init_def console_error_def)

theorem unset_contract_gives_null_witness:
  "contract (mounted (0::nat)) = None
   \<and> fetchData testnet (mounted 0) ''users'' [JString ''0xabc''] = (Resolved JNull, mounted 0)
   \<and> writeData testnet (mounted 0) ''registrationExt'' [JString ''0xabc''] = (Resolved JNull, mounted 0)
   \<and> users testnet (mounted 0) ''0xabc'' = (Resolved JNull, mounted 0)
   \<and> usersActiveX3Levels testnet (mounted 0) ''0xabc'' 1 = (Resolved JNull, mounted 0)
   \<and> usersActiveX4Levels testnet (mounted 0) ''0xabc'' 1 = (Resolved JNull, mounted 0)
   \<and> userX3Matrix testnet (mounted 0) ''0xabc'' 1 = (Resolved JNull, mounted 0)
   \<and> userX4Matrix testnet (mounted 0) ''0xabc'' 1 = (Resolved JNull, mounted 0)
   \<and> getTotalCycles testnet (mounted 0) ''0xabc'' 1 1 = (Resolved JNull, mounted 0)
   \<and> getPartnerCount testnet (mounted 0) ''0xabc'' 1 1 = (Resolved JNull, mounted 0)
   \<and> contract (init misconfigured (mounted 0)) = None
   \<and> users misconfigured (init misconfigured (mounted 0)) ''0xabc'' =
       (Resolved JNull,
        \<lparr>provider = Some endpoint, contract = None,
         console = [(''Error initializing provider or contract:'', LibraryFault ''invalid fragment'')],
         world = 0\<rparr>)"
proof -
  have unset: "contract (mounted (0::nat)) = None"
    by (simp add: mounted_def)
  have failed: "init misconfigured (mounted 0) =
      \<lparr>provider = Some endpoint, contract = None,
       console = [(''Error initializing provider or contract:'', LibraryFault ''invalid fragment'')],
       world = 0\<rparr>"
    by (simp add: init_def misconfigured_def testnet_def mounted_def endpoint_def console_error_def)
  then have still_unset: "contract (init misconfigured (mounted 0)) = None"
    by simp
  from unset unset_contract_gives_null [OF unset, of testnet]
    still_unset unset_contract_gives_null [OF still_unset, of misconfigured]
  show ?thesis
    unfolding failed by blast
qed

section \<open>The catch blocks\<close>

lemma try_catch_never_rejects:
  "fst (try_catch message body g) \<noteq> Rejected err"
proof -
  obtain outcome w where body: "body = (outcome, w)"
    by (cases body)
  show ?thesis
    unfolding body by (cases outcome) (simp_all add: try_catch_def)
qed

text \<open>No accessor ever rejects, whatever throws inside its \<open>try\<close> block.\<close>

lemma accessors_never_reject:
  "fst (fetchData lib g methodName params) \<noteq> Rejected err"
  "fst (writeData lib g methodName params) \<noteq> Rejected err"
  "fst (users lib g userAddress) \<noteq> Rejected err"
  "fst (usersActiveX3Levels lib g userAddress level) \<noteq> Rejected err"
  "fst (usersActiveX4Levels lib g userAddress level) \<noteq> Rejected err"
  "fst (userX3Matrix lib g userAddress level) \<noteq> Rejected err"
  "fst (userX4Matrix lib g userAddress level) \<noteq> Rejected err"
  "fst (getTotalCycles lib g userAddress matrix level) \<noteq> Rejected err"
  "fst (getPartnerCount lib g userAddress matrix level) \<noteq> Rejected err"
  by (simp_all add: accessor_defs try_catch_never_rejects split: option.split)

text \<open>
  C2. With the contract handle set, a throw of the underlying call never leaves an
  accessor: the accessor resolves to \<open>null\<close>, and its \<open>catch\<close> block writes exactly one
  line to the console (the console afterwards is the console before with one entry
  appended). For the seven typed read accessors and \<open>fetchData\<close> the underlying call is the
  read method on the stored handle; for \<open>writeData\<close> it is each step of the \<open>try\<close> block:
  deriving the signing handle, the mutating method, and the confirmation.
\<close>

theorem thrown_call_is_null_and_logged_once:
  assumes "contract g = Some c"
  shows "(invoke lib c methodName params (world g) = (Rejected err, w) \<longrightarrow>
            fetchData lib g methodName params =
              (Resolved JNull,
               g\<lparr>world := w,
                 console := console g @ [(''Error fetching data from '' @ methodName @ '':'', err)]\<rparr>))
       \<and> (invoke lib c ''users'' [JString userAddress] (world g) = (Rejected err, w) \<longrightarrow>
            users lib g userAddress =
              (Resolved JNull,
               g\<lparr>world := w, console := console g @ [(''Error fetching user details:'', err)]\<rparr>))
       \<and> (invoke lib c ''usersActiveX3Levels'' [JString userAddress, JNumber level] (world g) = (Rejected err, w) \<longrightarrow>
            usersActiveX3Levels lib g userAddress level =
              (Resolved JNull,
               g\<lparr>world := w, console := console g @ [(''Error fetching usersActiveX3Levels:'', err)]\<rparr>))
       \<and> (invoke lib c ''usersActiveX4Levels'' [JString userAddress, JNumber level] (world g) = (Rejected err, w) \<longrightarrow>
            usersActiveX4Levels lib g userAddress level =
              (Resolved JNull,
               g\<lparr>world := w, console := console g @ [(''Error fetching usersActiveX4Levels:'', err)]\<rparr>))
       \<and> (invoke lib c ''usersX3Matrix'' [JString userAddress, JNumber level] (world g) = (Rejected err, w) \<longrightarrow>
            userX3Matrix lib g userAddress level =
              (Resolved JNull,
               g\<lparr>world := w, console := console g @ [(''Error fetching usersX3Matrix:'', err)]\<rparr>))
       \<and> (invoke lib c ''usersX4Matrix'' [JString userAddress, JNumber level] (world g) = (Rejected err, w) \<longrightarrow>
            userX4Matrix lib g userAddress level =
              (Resolved JNull,
               g\<lparr>world := w, console := console g @ [(''Error fetching userX4Matrix:'', err)]\<rparr>))
       \<and> (invoke lib c ''getTotalCycles'' [JString userAddress, JNumber matrix, JNumber level] (world g) = (Rejected err, w) \<longrightarrow>
            getTotalCycles lib g userAddress matrix level =
              (Resolved JNull,
               g\<lparr>world := w, console := console g @ [(''Error fetching total cycles:'', err)]\<rparr>))
       \<and> (invoke lib c ''getPartnerCount'' [JString userAddress, JNumber matrix, JNumber level] (world g) = (Rejected err, w) \<longrightarrow>
            getPartnerCount lib g userAddress matrix level =
              (Resolved JNull,
               g\<lparr>world := w, console := console g @ [(''Error fetching partner count:'', err)]\<rparr>))
       \<and> (and_then (optional_getSigner lib (provider g)) (connect lib c) = Inl err \<longrightarrow>
            writeData lib g methodName params =
              (Resolved JNull,
               g\<lparr>console := console g @ [(''Error writing data to '' @ methodName @ '':'', err)]\<rparr>))
       \<and> (and_then (optional_getSigner lib (provider g)) (connect lib c) = Inr contractWithSigner
            \<and> invoke lib contractWithSigner methodName params (world g) = (Rejected err, w) \<longrightarrow>
            writeData lib g methodName params =
              (Resolved JNull,
               g\<lparr>world := w,
                 console := console g @ [(''Error writing data to '' @ methodName @ '':'', err)]\<rparr>))
       \<and> (and_then (optional_getSigner lib (provider g)) (connect lib c) = Inr contractWithSigner
            \<and> invoke lib contractWithSigner methodName params (world g) = (Resolved tx, w')
            \<and> tx_wait lib tx w' = (Rejected err, w) \<longrightarrow>
            writeData lib g methodName params =
              (Resolved JNull,
               g\<lparr>world := w,
                 console := console g @ [(''Error writing data to '' @ methodName @ '':'', err)]\<rparr>))"
proof (intro conjI impI)
  assume "invoke lib c methodName params (world g) = (Rejected err, w)"
  then show "fetchData lib g methodName params =
    (Resolved JNull,
     g\<lparr>world := w, console := console g @ [(''Error fetching data from '' @ methodName @ '':'', err)]\<rparr>)"
    using assms by (simp add: fetchData_def flow)
next
  assume "invoke lib c ''users'' [JString userAddress] (world g) = (Rejected err, w)"
  then show "users lib g userAddress =
    (Resolved JNull, g\<lparr>world := w, console := console g @ [(''Error fetching user details:'', err)]\<rparr>)"
    using assms by (simp add: users_def flow)
next
  assume "invoke lib c ''usersActiveX3Levels'' [JString userAddress, JNumber level] (world g) = (Rejected err, w)"
  then show "usersActiveX3Levels lib g userAddress level =
    (Resolved JNull, g\<lparr>world := w, console := console g @ [(''Error fetching usersActiveX3Levels:'', err)]\<rparr>)"
    using assms by (simp add: usersActiveX3Levels_def flow)
next
  assume "invoke lib c ''usersActiveX4Levels'' [JString userAddress, JNumber level] (world g) = (Rejected err, w)"
  then show "usersActiveX4Levels lib g userAddress level =
    (Resolved JNull, g\<lparr>world := w, console := console g @ [(''Error fetching usersActiveX4Levels:'', err)]\<rparr>)"
    using assms by (simp add: usersActiveX4Levels_def flow)
next
  assume "invoke lib c ''usersX3Matrix'' [JString userAddress, JNumber level] (world g) = (Rejected err, w)"
  then show "userX3Matrix lib g userAddress level =
    (Resolved JNull, g\<lparr>world := w, console := console g @ [(''Error fetching usersX3Matrix:'', err)]\<rparr>)"
    using assms by (simp add: userX3Matrix_def flow)
next
  assume "invoke lib c ''usersX4Matrix'' [JString userAddress, JNumber level] (world g) = (Rejected err, w)"
  then show "userX4Matrix lib g userAddress level =
    (Resolved JNull, g\<lparr>world := w, console := console g @ [(''Error fetching userX4Matrix:'', err)]\<rparr>)"
    using assms by (simp add: userX4Matrix_def flow)
next
  assume "invoke lib c ''getTotalCycles'' [JString userAddress, JNumber matrix, JNumber level] (world g) = (Rejected err, w)"
  then show "getTotalCycles lib g userAddress matrix level =
    (Resolved JNull, g\<lparr>world := w, console := console g @ [(''Error fetching total cycles:'', err)]\<rparr>)"
    using assms by (simp add: getTotalCycles_def flow)
next
  assume "invoke lib c ''getPartnerCount'' [JString userAddress, JNumber matrix, JNumber level] (world g) = (Rejected err, w)"
  then show "getPartnerCount lib g userAddress matrix level =
    (Resolved JNull, g\<lparr>world := w, console := console g @ [(''Error fetching partner count:'', err)]\<rparr>)"
    using assms by (simp add: getPartnerCount_def flow)
next
  assume "and_then (optional_getSigner lib (provider g)) (connect lib c) = Inl err"
  then show "writeData lib g methodName params =
    (Resolved JNull, g\<lparr>console := console g @ [(''Error writing data to '' @ methodName @ '':'', err)]\<rparr>)"
    using assms by (simp add: writeData_def flow)
next
  assume "and_then (optional_getSigner lib (provider g)) (connect lib c) = Inr contractWithSigner
    \<and> invoke lib contractWithSigner methodName params (world g) = (Rejected err, w)"
  then show "writeData lib g methodName params =
    (Resolved JNull,
     g\<lparr>world := w, console := console g @ [(''Error writing data to '' @ methodName @ '':'', err)]\<rparr>)"
    using assms by (simp add: writeData_def flow)
next
  assume "and_then (optional_getSigner lib (provider g)) (connect lib c) = Inr contractWithSigner
    \<and> invoke lib contractWithSigner methodName params (world g) = (Resolved tx, w')
    \<and> tx_wait lib tx w' = (Rejected err, w)"
  then show "writeData lib g methodName params =
    (Resolved JNull,
     g\<lparr>world := w, console := console g @ [(''Error writing data to '' @ methodName @ '':'', err)]\<rparr>)"
    using assms by (simp add: writeData_def flow)
qed


theorem thrown_call_is_null_and_logged_once_witness:
  "contract ready = Some handle
   \<and> invoke offline handle ''registrationExt'' [] (world ready) = (Rejected (LibraryFault ''could not detect network''), 0)
   \<and> fetchData offline ready ''registrationExt'' [] =
       (Resolved JNull,
        ready\<lparr>console := [(''Error fetching data from registrationExt:'', LibraryFault ''could not detect network'')]\<rparr>)
   \<and> users offline ready ''0xabc'' =
       (Resolved JNull,
        ready\<lparr>console := [(''Error fetching user details:'', LibraryFault ''could not detect network'')]\<rparr>)
   \<and> usersActiveX3Levels offline ready ''0xabc'' 1 =
       (Resolved JNull,
        ready\<lparr>console := [(''Error fetching usersActiveX3Levels:'', LibraryFault ''could not detect network'')]\<rparr>)
   \<and> usersActiveX4Levels offline ready ''0xabc'' 1 =
       (Resolved JNull,
        ready\<lparr>console := [(''Error fetching usersActiveX4Levels:'', LibraryFault ''could not detect network'')]\<rparr>)
   \<and> userX3Matrix offline ready ''0xabc'' 1 =
       (Resolved JNull,
        ready\<lparr>console := [(''Error fetching usersX3Matrix:'', LibraryFault ''could not detect network'')]\<rparr>)
   \<and> userX4Matrix offline ready ''0xabc'' 1 =
       (Resolved JNull,
        ready\<lparr>console := [(''Error fetching userX4Matrix:'', LibraryFault ''could not detect network'')]\<rparr>)
   \<and> getTotalCycles offline ready ''0xabc'' 2 1 =
       (Resolved JNull,
        ready\<lparr>console := [(''Error fetching total cycles:'', LibraryFault ''could not detect network'')]\<rparr>)
   \<and> getPartnerCount offline ready ''0xabc'' 2 1 =
       (Resolved JNull,
        ready\<lparr>console := [(''Error fetching partner count:'', LibraryFault ''could not detect network'')]\<rparr>)
   \<and> writeData offline ready ''registrationExt'' [] =
       (Resolved JNull,
        ready\<lparr>console := [(''Error writing data to registrationExt:'', LibraryFault ''could not detect network'')]\<rparr>)
   \<and> writeData unsigned ready ''registrationExt'' [] =
       (Resolved JNull,
        ready\<lparr>console := [(''Error writing data to registrationExt:'', LibraryFault ''unknown account'')]\<rparr>)
   \<and> writeData reverting ready ''registrationExt'' [] =
       (Resolved JNull,
        ready\<lparr>world := 2,
          console := [(''Error writing data to registrationExt:'', LibraryFault ''transaction failed'')]\<rparr>)"
proof -
  have c: "contract ready = Some handle"
    by (simp add: ready_eq)
  have off: "invoke offline d name ps (world ready) = (Rejected (LibraryFault ''could not detect network''), 0)"
    for d name ps
    by (simp add: offline_def ready_eq)
  have derived: "and_then (optional_getSigner offline (provider ready)) (connect offline handle) = Inr signing_handle"
    "and_then (optional_getSigner reverting (provider ready)) (connect reverting handle) = Inr signing_handle"
    using signing_handle_derived
    by (simp_all add: ready_eq offline_def reverting_def and_then_def optional_getSigner_def)
  have refused: "and_then (optional_getSigner unsigned (provider ready)) (connect unsigned handle)
      = Inl (LibraryFault ''unknown account'')"
    by (simp add: ready_eq unsigned_def and_then_def optional_getSigner_def)
  have sent: "invoke reverting signing_handle ''registrationExt'' [] (world ready)
      = (Resolved (TransactionResponse 42), 1)"
    by (simp add: reverting_def testnet_def signing_handle_def ready_eq)
  have failed: "wait reverting h n = (Rejected (LibraryFault ''transaction failed''), Suc n)" for h n
    by (simp add: reverting_def)
  have shape: "ready\<lparr>world := 0, console := console ready @ l\<rparr> = ready\<lparr>console := l\<rparr>"
    "ready\<lparr>console := console ready @ l\<rparr> = ready\<lparr>console := l\<rparr>"
    "ready\<lparr>world := 2, console := console ready @ l\<rparr> = ready\<lparr>world := 2, console := l\<rparr>" for l
    by (simp_all add: ready_eq)
  note offline_case = thrown_call_is_null_and_logged_once [OF c,
      where lib = offline and methodName = "''registrationExt''" and params = "[]"
        and err = "LibraryFault ''could not detect network''" and w = 0
        and userAddress = "''0xabc''" and level = 1 and matrix = 2
        and contractWithSigner = signing_handle and tx = JNull and w' = 0]
  note unsigned_case = thrown_call_is_null_and_logged_once [OF c,
      where lib = unsigned and methodName = "''registrationExt''" and params = "[]"
        and err = "LibraryFault ''unknown account''" and w = 0
        and userAddress = "''0xabc''" and level = 1 and matrix = 2
        and contractWithSigner = signing_handle and tx = JNull and w' = 0]
  note reverting_case = thrown_call_is_null_and_logged_once [OF c,
      where lib = reverting and methodName = "''registrationExt''" and params = "[]"
        and err = "LibraryFault ''transaction failed''" and w = 2 and w' = 1
        and userAddress = "''0xabc''" and level = 1 and matrix = 2
        and tx = "TransactionResponse 42" and contractWithSigner = signing_handle]
  have reads: "fetchData offline ready ''registrationExt'' [] =
       (Resolved JNull,
        ready\<lparr>console := [(''Error fetching data from registrationExt:'', LibraryFault ''could not detect network'')]\<rparr>)
   \<and> users offline ready ''0xabc'' =
       (Resolved JNull,
        ready\<lparr>console := [(''Error fetching user details:'', LibraryFault ''could not detect network'')]\<rparr>)
   \<and> usersActiveX3Levels offline ready ''0xabc'' 1 =
       (Resolved JNull,
        ready\<lparr>console := [(''Error fetching usersActiveX3Levels:'', LibraryFault ''could not detect network'')]\<rparr>)
   \<and> usersActiveX4Levels offline ready ''0xabc'' 1 =
       (Resolved JNull,
        ready\<lparr>console := [(''Error fetching usersActiveX4Levels:'', LibraryFault ''could not detect network'')]\<rparr>)
   \<and> userX3Matrix offline ready ''0xabc'' 1 =
       (Resolved JNull,
        ready\<lparr>console := [(''Error fetching usersX3Matrix:'', LibraryFault ''could not detect network'')]\<rparr>)
   \<and> userX4Matrix offline ready ''0xabc'' 1 =
       (Resolved JNull,
        ready\<lparr>console := [(''Error fetching userX4Matrix:'', LibraryFault ''could not detect network'')]\<rparr>)
   \<and> getTotalCycles offline ready ''0xabc'' 2 1 =
       (Resolved JNull,
        ready\<lparr>console := [(''Error fetching total cycles:'', LibraryFault ''could not detect network'')]\<rparr>)
   \<and> getPartnerCount offline ready ''0xabc'' 2 1 =
       (Resolved JNull,
        ready\<lparr>console := [(''Error fetching partner count:'', LibraryFault ''could not detect network'')]\<rparr>)
   \<and> writeData offline ready ''registrationExt'' [] =
       (Resolved JNull,
        ready\<lparr>console := [(''Error writing data to registrationExt:'', LibraryFault ''could not detect network'')]\<rparr>)"
    using offline_case by (simp add: off derived shape)
  have no_signer: "writeData unsigned ready ''registrationExt'' [] =
       (Resolved JNull,
        ready\<lparr>console := [(''Error writing data to registrationExt:'', LibraryFault ''unknown account'')]\<rparr>)"
    using unsigned_case by (simp add: refused shape)
  have no_receipt: "writeData reverting ready ''registrationExt'' [] =
       (Resolved JNull,
        ready\<lparr>world := 2,
          console := [(''Error writing data to registrationExt:'', LibraryFault ''transaction failed'')]\<rparr>)"
    using reverting_case by (simp add: derived sent failed shape)
  from c off reads no_signer no_receipt show ?thesis
    by simp
qed

section \<open>Confirmation before return\<close>

lemma tx_wait_Resolved:
  "tx_wait lib tx w' = (Resolved receipt, w) \<longleftrightarrow>
     (\<exists>h. tx = TransactionResponse h \<and> wait lib h w' = (Resolved receipt, w))"
  by (cases tx) simp_all

lemma try_catch_Resolved_iff:
  "try_catch message body g = (Resolved v, g') \<and> v \<noteq> JNull \<longleftrightarrow>
     (\<exists>w. body = (Resolved v, w) \<and> g' = g\<lparr>world := w\<rparr>) \<and> v \<noteq> JNull"
proof (cases body)
  case (Pair outcome w)
  then show ?thesis
    by (cases outcome) (auto simp: flow)
qed

lemma await_Resolved_iff:
  "await p rest = (Resolved v, w) \<longleftrightarrow> (\<exists>u w'. p = (Resolved u, w') \<and> rest u w' = (Resolved v, w))"
proof (cases p)
  case (Pair outcome w')
  then show ?thesis
    by (cases outcome) (auto simp: flow)
qed

text \<open>
  C3. \<open>writeData\<close> resolves to a transaction record exactly when the mutating method
  resolved to that record and the confirmation step \<open>tx.wait()\<close> on it has resolved
  afterwards, in the world the method call left; the world at the return is the world
  after the confirmation. While the confirmation is pending, \<open>writeData\<close> is pending too:
  it never resolves before the confirmation has completed.
\<close>

theorem writeData_resolves_only_after_confirmation:
  "(writeData lib g methodName params = (Resolved v, g') \<and> v \<noteq> JNull \<longleftrightarrow>
      (\<exists>c contractWithSigner h w' receipt w.
          contract g = Some c
        \<and> and_then (optional_getSigner lib (provider g)) (connect lib c) = Inr contractWithSigner
        \<and> invoke lib contractWithSigner methodName params (world g) = (Resolved (TransactionResponse h), w')
        \<and> wait lib h w' = (Resolved receipt, w)
        \<and> v = TransactionResponse h
        \<and> g' = g\<lparr>world := w\<rparr>))
   \<and> (contract g = Some d
        \<and> and_then (optional_getSigner lib (provider g)) (connect lib d) = Inr signing
        \<and> invoke lib signing methodName params (world g) = (Resolved tx, sent)
        \<and> tx_wait lib tx sent = (Pending, later) \<longrightarrow>
        writeData lib g methodName params = (Pending, g\<lparr>world := later\<rparr>))"
proof (intro conjI impI)
  show "writeData lib g methodName params = (Resolved v, g') \<and> v \<noteq> JNull \<longleftrightarrow>
      (\<exists>c contractWithSigner h w' receipt w.
          contract g = Some c
        \<and> and_then (optional_getSigner lib (provider g)) (connect lib c) = Inr contractWithSigner
        \<and> invoke lib contractWithSigner methodName params (world g) = (Resolved (TransactionResponse h), w')
        \<and> wait lib h w' = (Resolved receipt, w)
        \<and> v = TransactionResponse h
        \<and> g' = g\<lparr>world := w\<rparr>)"
  proof (cases "contract g")
    case None
    then show ?thesis
      by (auto simp: writeData_def)
  next
    case (Some c)
    show ?thesis
    proof (cases "and_then (optional_getSigner lib (provider g)) (connect lib c)")
      case (Inl err)
      with Some show ?thesis
        by (auto simp: writeData_def flow)
    next
      case (Inr contractWithSigner)
      have "writeData lib g methodName params = (Resolved v, g') \<and> v \<noteq> JNull \<longleftrightarrow>
        (\<exists>w. await (invoke lib contractWithSigner methodName params (world g))
                (\<lambda>tx w. await (tx_wait lib tx w) (\<lambda>receipt. returns (Inr tx))) = (Resolved v, w)
             \<and> g' = g\<lparr>world := w\<rparr>) \<and> v \<noteq> JNull"
        using Some Inr by (simp add: writeData_def try_catch_Resolved_iff)
      also have "\<dots> \<longleftrightarrow>
        (\<exists>h w' receipt w.
           invoke lib contractWithSigner methodName params (world g) = (Resolved (TransactionResponse h), w')
         \<and> wait lib h w' = (Resolved receipt, w)
         \<and> v = TransactionResponse h
         \<and> g' = g\<lparr>world := w\<rparr>)"
        by (auto simp: await_Resolved_iff tx_wait_Resolved flow)
      finally show ?thesis
        using Some Inr by simp
    qed
  qed
next
  assume "contract g = Some d
        \<and> and_then (optional_getSigner lib (provider g)) (connect lib d) = Inr signing
        \<and> invoke lib signing methodName params (world g) = (Resolved tx, sent)
        \<and> tx_wait lib tx sent = (Pending, later)"
  then show "writeData lib g methodName params = (Pending, g\<lparr>world := later\<rparr>)"
    by (simp add: writeData_def flow)
qed


theorem writeData_resolves_only_after_confirmation_witness:
  "invoke testnet signing_handle ''registrationExt'' [JString ''0xabc''] 0 = (Resolved (TransactionResponse 42), 1)
   \<and> wait testnet 42 1 = (Resolved (JObject [(''status'', JNumber 1)]), 2)
   \<and> writeData testnet ready ''registrationExt'' [JString ''0xabc''] =
         (Resolved (TransactionResponse 42), ready\<lparr>world := 2\<rparr>)
   \<and> wait stalled 42 1 = (Pending, 1)
   \<and> writeData stalled ready ''registrationExt'' [JString ''0xabc''] = (Pending, ready\<lparr>world := 1\<rparr>)"
proof -
  have c: "contract ready = Some handle" and p: "provider ready = Some endpoint" and w: "world ready = 0"
    by (simp_all add: ready_eq)
  have derived: "and_then (optional_getSigner testnet (provider ready)) (connect testnet handle) = Inr signing_handle"
    "and_then (optional_getSigner stalled (provider ready)) (connect stalled handle) = Inr signing_handle"
    using signing_handle_derived
    by (simp_all add: p stalled_def and_then_def optional_getSigner_def)
  have sent: "invoke testnet signing_handle ''registrationExt'' [JString ''0xabc''] 0 = (Resolved (TransactionResponse 42), 1)"
    "invoke stalled signing_handle ''registrationExt'' [JString ''0xabc''] 0 = (Resolved (TransactionResponse 42), 1)"
    by (simp_all add: stalled_def testnet_def signing_handle_def)
  have confirmed: "wait testnet 42 1 = (Resolved (JObject [(''status'', JNumber 1)]), 2)"
    by (simp add: testnet_def)
  have hung: "wait stalled 42 1 = (Pending, 1)"
    by (simp add: stalled_def)
  note t = writeData_resolves_only_after_confirmation [where g = ready and methodName = "''registrationExt''"
      and params = "[JString ''0xabc'']"]
  have "\<exists>c contractWithSigner h w' receipt w.
          contract ready = Some c
        \<and> and_then (optional_getSigner testnet (provider ready)) (connect testnet c) = Inr contractWithSigner
        \<and> invoke testnet contractWithSigner ''registrationExt'' [JString ''0xabc''] (world ready)
            = (Resolved (TransactionResponse h), w')
        \<and> wait testnet h w' = (Resolved receipt, w)
        \<and> TransactionResponse 42 = TransactionResponse h
        \<and> ready\<lparr>world := 2\<rparr> = ready\<lparr>world := w\<rparr>"
    using c derived(1) sent(1) confirmed unfolding w by blast
  with t [where lib = testnet and v = "TransactionResponse 42" and g' = "ready\<lparr>world := 2\<rparr>"]
  have settled_ok: "writeData testnet ready ''registrationExt'' [JString ''0xabc''] =
         (Resolved (TransactionResponse 42), ready\<lparr>world := 2\<rparr>)"
    by blast
  have "tx_wait stalled (TransactionResponse 42) 1 = (Pending, 1)"
    using hung by simp
  with t [where lib = stalled and d = handle and signing = signing_handle
      and tx = "TransactionResponse 42" and sent = 1 and later = 1] c derived(2) sent(2)
  have waiting: "writeData stalled ready ''registrationExt'' [JString ''0xabc''] = (Pending, ready\<lparr>world := 1\<rparr>)"
    unfolding w by blast
  from sent(1) confirmed settled_ok hung waiting show ?thesis
    by blast
qed

section \<open>Results of the read accessors\<close>

lemma toNumber_in_range:
  "\<bar>n\<bar> \<le> MAX_SAFE_INTEGER \<Longrightarrow> toNumber (BigNumber n) = Inr (JNumber n)"
  by auto

lemma userData_of_tuple:
  assumes "map_of raw ''id'' = Some (BigNumber uid)"
    and "map_of raw ''referrer'' = Some referrer"
    and "map_of raw ''partnersCount'' = Some (BigNumber partners)"
    and "map_of raw ''registrationTime'' = Some (BigNumber registered)"
    and "\<bar>uid\<bar> \<le> MAX_SAFE_INTEGER"
    and "\<bar>partners\<bar> \<le> MAX_SAFE_INTEGER"
    and "\<bar>registered\<bar> \<le> MAX_SAFE_INTEGER"
  shows "userData (JObject raw) =
           Inr (JObject
             [(''id'', JNumber uid),
              (''referrer'', referrer),
              (''partnersCount'', JNumber partners),
              (''registrationTime'', JNumber registered)])"
  using assms by (simp add: userData_def and_then_def toNumber_in_range del: toNumber.simps)

text \<open>
  C4. Once the contract handle is set (as it is after a successful \<open>init\<close>), and the
  lookup \<open>users(addr)\<close> resolves to a tuple whose \<open>id\<close>, \<open>partnersCount\<close> and
  \<open>registrationTime\<close> are arbitrary-precision integers within the safe integer range,
  \<open>users\<close> resolves to the record of exactly the four fields, the three numbers with
  the same integer values and \<open>referrer\<close> as it came; nothing is logged.
\<close>

theorem users_returns_normalized_record:
  assumes "contract g = Some c"
    and "invoke lib c ''users'' [JString userAddress] (world g) = (Resolved (JObject raw), w)"
    and "map_of raw ''id'' = Some (BigNumber uid)"
    and "map_of raw ''referrer'' = Some referrer"
    and "map_of raw ''partnersCount'' = Some (BigNumber partners)"
    and "map_of raw ''registrationTime'' = Some (BigNumber registered)"
    and "\<bar>uid\<bar> \<le> MAX_SAFE_INTEGER"
    and "\<bar>partners\<bar> \<le> MAX_SAFE_INTEGER"
    and "\<bar>registered\<bar> \<le> MAX_SAFE_INTEGER"
  shows "users lib g userAddress =
           (Resolved (JObject
              [(''id'', JNumber uid),
               (''referrer'', referrer),
               (''partnersCount'', JNumber partners),
               (''registrationTime'', JNumber registered)]),
            g\<lparr>world := w\<rparr>)"
proof -
  have "userData (JObject raw) =
           Inr (JObject
             [(''id'', JNumber uid),
              (''referrer'', referrer),
              (''partnersCount'', JNumber partners),
              (''registrationTime'', JNumber registered)])"
    using assms(3-9) by (rule userData_of_tuple)
  with assms(1,2) show ?thesis
    by (simp add: users_def flow)
qed

theorem users_returns_normalized_record_witness:
  "ready = init testnet (mounted 0)
   \<and> contract ready = Some handle
   \<and> invoke testnet handle ''users'' [JString ''0xabc''] (world ready) =
       (Resolved (JObject
          [(''id'', BigNumber 7),
           (''referrer'', JString ''0x1111''),
           (''partnersCount'', BigNumber 3),
           (''registrationTime'', BigNumber 1700000000)]), 1)
   \<and> users testnet ready ''0xabc'' =
       (Resolved (JObject
          [(''id'', JNumber 7),
           (''referrer'', JString ''0x1111''),
           (''partnersCount'', JNumber 3),
           (''registrationTime'', JNumber 1700000000)]),
        ready\<lparr>world := 1\<rparr>)"
proof -
  have c: "contract ready = Some handle"
    by (simp add: ready_eq)
  have looked_up: "invoke testnet handle ''users'' [JString ''0xabc''] (world ready) =
       (Resolved (JObject
          [(''id'', BigNumber 7),
           (''referrer'', JString ''0x1111''),
           (''partnersCount'', BigNumber 3),
           (''registrationTime'', BigNumber 1700000000)]), 1)"
    by (simp add: testnet_def ready_eq)
  have "users testnet ready ''0xabc'' =
       (Resolved (JObject
          [(''id'', JNumber 7),
           (''referrer'', JString ''0x1111''),
           (''partnersCount'', JNumber 3),
           (''registrationTime'', JNumber 1700000000)]),
        ready\<lparr>world := 1\<rparr>)"
    by (rule users_returns_normalized_record [OF c looked_up]) (simp_all add: MAX_SAFE_INTEGER_def)
  with c looked_up show ?thesis
    by (simp add: ready_def)
qed

text \<open>
  C5. With the contract handle set, \<open>userX4Matrix\<close>, \<open>getTotalCycles\<close> and
  \<open>getPartnerCount\<close> resolve to the number with the value of the arbitrary-precision
  integer that the read call (\<open>usersX4Matrix\<close>, \<open>getTotalCycles\<close>, \<open>getPartnerCount\<close>)
  yields within the safe integer range. On failure they resolve to \<open>null\<close> after one
  console line: when the read call throws, and when the value it yields cannot be
  converted.
\<close>

theorem numeric_accessors_normalize:
  assumes "contract g = Some c"
  shows "(invoke lib c ''usersX4Matrix'' [JString userAddress, JNumber level] (world g) = (Resolved (BigNumber n), w)
            \<and> \<bar>n\<bar> \<le> MAX_SAFE_INTEGER \<longrightarrow>
          userX4Matrix lib g userAddress level = (Resolved (JNumber n), g\<lparr>world := w\<rparr>))
       \<and> (invoke lib c ''getTotalCycles'' [JString userAddress, JNumber matrix, JNumber level] (world g) = (Resolved (BigNumber n), w)
            \<and> \<bar>n\<bar> \<le> MAX_SAFE_INTEGER \<longrightarrow>
          getTotalCycles lib g userAddress matrix level = (Resolved (JNumber n), g\<lparr>world := w\<rparr>))
       \<and> (invoke lib c ''getPartnerCount'' [JString userAddress, JNumber matrix, JNumber level] (world g) = (Resolved (BigNumber n), w)
            \<and> \<bar>n\<bar> \<le> MAX_SAFE_INTEGER \<longrightarrow>
          getPartnerCount lib g userAddress matrix level = (Resolved (JNumber n), g\<lparr>world := w\<rparr>))
       \<and> (invoke lib c ''usersX4Matrix'' [JString userAddress, JNumber level] (world g) = (Rejected err, w) \<longrightarrow>
          userX4Matrix lib g userAddress level =
            (Resolved JNull, g\<lparr>world := w, console := console g @ [(''Error fetching userX4Matrix:'', err)]\<rparr>))
       \<and> (invoke lib c ''getTotalCycles'' [JString userAddress, JNumber matrix, JNumber level] (world g) = (Rejected err, w) \<longrightarrow>
          getTotalCycles lib g userAddress matrix level =
            (Resolved JNull, g\<lparr>world := w, console := console g @ [(''Error fetching total cycles:'', err)]\<rparr>))
       \<and> (invoke lib c ''getPartnerCount'' [JString userAddress, JNumber matrix, JNumber level] (world g) = (Rejected err, w) \<longrightarrow>
          getPartnerCount lib g userAddress matrix level =
            (Resolved JNull, g\<lparr>world := w, console := console g @ [(''Error fetching partner count:'', err)]\<rparr>))
       \<and> (invoke lib c ''usersX4Matrix'' [JString userAddress, JNumber level] (world g) = (Resolved v, w)
            \<and> toNumber v = Inl err \<longrightarrow>
          userX4Matrix lib g userAddress level =
            (Resolved JNull, g\<lparr>world := w, console := console g @ [(''Error fetching userX4Matrix:'', err)]\<rparr>))
       \<and> (invoke lib c ''getTotalCycles'' [JString userAddress, JNumber matrix, JNumber level] (world g) = (Resolved v, w)
            \<and> toNumber v = Inl err \<longrightarrow>
          getTotalCycles lib g userAddress matrix level =
            (Resolved JNull, g\<lparr>world := w, console := console g @ [(''Error fetching total cycles:'', err)]\<rparr>))
       \<and> (invoke lib c ''getPartnerCount'' [JString userAddress, JNumber matrix, JNumber level] (world g) = (Resolved v, w)
            \<and> toNumber v = Inl err \<longrightarrow>
          getPartnerCount lib g userAddress matrix level =
            (Resolved JNull, g\<lparr>world := w, console := console g @ [(''Error fetching partner count:'', err)]\<rparr>))"
  using assms
  by (simp add: userX4Matrix_def getTotalCycles_def getPartnerCount_def flow toNumber_in_range
      del: toNumber.simps)

theorem numeric_accessors_normalize_witness:
  "contract ready = Some handle
   \<and> invoke testnet handle ''usersX4Matrix'' [JString ''0xabc'', JNumber 1] (world ready) = (Resolved (BigNumber 2), 1)
   \<and> userX4Matrix testnet ready ''0xabc'' 1 = (Resolved (JNumber 2), ready\<lparr>world := 1\<rparr>)
   \<and> invoke testnet handle ''getTotalCycles'' [JString ''0xabc'', JNumber 2, JNumber 1] (world ready) = (Resolved (BigNumber 5), 1)
   \<and> getTotalCycles testnet ready ''0xabc'' 2 1 = (Resolved (JNumber 5), ready\<lparr>world := 1\<rparr>)
   \<and> invoke testnet handle ''getPartnerCount'' [JString ''0xabc'', JNumber 2, JNumber 1] (world ready) = (Resolved (BigNumber (2 ^ 60)), 1)
   \<and> getPartnerCount testnet ready ''0xabc'' 2 1 =
       (Resolved JNull, ready\<lparr>world := 1, console := [(''Error fetching partner count:'', LibraryFault ''overflow'')]\<rparr>)
   \<and> getPartnerCount offline ready ''0xabc'' 2 1 =
       (Resolved JNull, ready\<lparr>console := [(''Error fetching partner count:'', LibraryFault ''could not detect network'')]\<rparr>)"
proof -
  have c: "contract ready = Some handle" and w: "world ready = 0" and l: "console ready = []"
    by (simp_all add: ready_eq)
  have x4: "invoke testnet handle ''usersX4Matrix'' [JString ''0xabc'', JNumber 1] 0 = (Resolved (BigNumber 2), 1)"
    and cycles: "invoke testnet handle ''getTotalCycles'' [JString ''0xabc'', JNumber 2, JNumber 1] 0 = (Resolved (BigNumber 5), 1)"
    and partners: "invoke testnet handle ''getPartnerCount'' [JString ''0xabc'', JNumber 2, JNumber 1] 0 = (Resolved (BigNumber (2 ^ 60)), 1)"
    by (simp_all add: testnet_def)
  have down: "invoke offline handle ''getPartnerCount'' [JString ''0xabc'', JNumber 2, JNumber 1] 0
      = (Rejected (LibraryFault ''could not detect network''), 0)"
    by (simp add: offline_def)
  have too_big: "toNumber (BigNumber (2 ^ 60)) = Inl (LibraryFault ''overflow'')"
    by (simp add: MAX_SAFE_INTEGER_def)
  have small: "\<bar>2::int\<bar> \<le> MAX_SAFE_INTEGER" "\<bar>5::int\<bar> \<le> MAX_SAFE_INTEGER"
    by (simp_all add: MAX_SAFE_INTEGER_def)
  note t = numeric_accessors_normalize [OF c, where userAddress = "''0xabc''" and level = 1 and matrix = 2,
      unfolded w l]
  have a: "userX4Matrix testnet ready ''0xabc'' 1 = (Resolved (JNumber 2), ready\<lparr>world := 1\<rparr>)"
    using t [where lib = testnet and n = 2 and w = 1] x4 small by blast
  have b: "getTotalCycles testnet ready ''0xabc'' 2 1 = (Resolved (JNumber 5), ready\<lparr>world := 1\<rparr>)"
    using t [where lib = testnet and n = 5 and w = 1] cycles small by blast
  have d: "getPartnerCount testnet ready ''0xabc'' 2 1 =
       (Resolved JNull, ready\<lparr>world := 1, console := [(''Error fetching partner count:'', LibraryFault ''overflow'')]\<rparr>)"
    using t [where lib = testnet and v = "BigNumber (2 ^ 60)" and w = 1 and err = "LibraryFault ''overflow''"]
      partners too_big by simp
  have "ready\<lparr>world := 0, console := k\<rparr> = ready\<lparr>console := k\<rparr>" for k
    by (simp add: ready_eq)
  then have e: "getPartnerCount offline ready ''0xabc'' 2 1 =
       (Resolved JNull, ready\<lparr>console := [(''Error fetching partner count:'', LibraryFault ''could not detect network'')]\<rparr>)"
    using t [where lib = offline and w = 0 and err = "LibraryFault ''could not detect network''"] down
    by simp
  from c x4 cycles partners a b d e show ?thesis
    unfolding w by blast
qed

text \<open>
  C6. With the contract handle set, \<open>usersActiveX3Levels\<close> and \<open>usersActiveX4Levels\<close>
  resolve to exactly the boolean their read call yields, for every address and every
  level (so for each level from 1 to the maximum of the schema, whatever that is), and
  to \<open>null\<close> after one console line when the read call throws.
\<close>

theorem activity_checks_return_the_boolean:
  assumes "contract g = Some c"
  shows "(invoke lib c ''usersActiveX3Levels'' [JString userAddress, JNumber level] (world g) = (Resolved (JBool active), w) \<longrightarrow>
          usersActiveX3Levels lib g userAddress level = (Resolved (JBool active), g\<lparr>world := w\<rparr>))
       \<and> (invoke lib c ''usersActiveX4Levels'' [JString userAddress, JNumber level] (world g) = (Resolved (JBool active), w) \<longrightarrow>
          usersActiveX4Levels lib g userAddress level = (Resolved (JBool active), g\<lparr>world := w\<rparr>))
       \<and> (invoke lib c ''usersActiveX3Levels'' [JString userAddress, JNumber level] (world g) = (Rejected err, w) \<longrightarrow>
          usersActiveX3Levels lib g userAddress level =
            (Resolved JNull, g\<lparr>world := w, console := console g @ [(''Error fetching usersActiveX3Levels:'', err)]\<rparr>))
       \<and> (invoke lib c ''usersActiveX4Levels'' [JString userAddress, JNumber level] (world g) = (Rejected err, w) \<longrightarrow>
          usersActiveX4Levels lib g userAddress level =
            (Resolved JNull, g\<lparr>world := w, console := console g @ [(''Error fetching usersActiveX4Levels:'', err)]\<rparr>))"
  using assms by (simp add: usersActiveX3Levels_def usersActiveX4Levels_def flow)

theorem activity_checks_return_the_boolean_witness:
  "contract ready = Some handle
   \<and> invoke testnet handle ''usersActiveX3Levels'' [JString ''0xabc'', JNumber 1] (world ready) = (Resolved (JBool True), 1)
   \<and> usersActiveX3Levels testnet ready ''0xabc'' 1 = (Resolved (JBool True), ready\<lparr>world := 1\<rparr>)
   \<and> invoke testnet handle ''usersActiveX4Levels'' [JString ''0xabc'', JNumber 12] (world ready) = (Resolved (JBool False), 1)
   \<and> usersActiveX4Levels testnet ready ''0xabc'' 12 = (Resolved (JBool False), ready\<lparr>world := 1\<rparr>)
   \<and> usersActiveX3Levels offline ready ''0xabc'' 1 =
       (Resolved JNull, ready\<lparr>console := [(''Error fetching usersActiveX3Levels:'', LibraryFault ''could not detect network'')]\<rparr>)
   \<and> usersActiveX4Levels offline ready ''0xabc'' 12 =
       (Resolved JNull, ready\<lparr>console := [(''Error fetching usersActiveX4Levels:'', LibraryFault ''could not detect network'')]\<rparr>)"
proof -
  have c: "contract ready = Some handle" and w: "world ready = 0" and l: "console ready = []"
    by (simp_all add: ready_eq)
  have x3: "invoke testnet handle ''usersActiveX3Levels'' [JString ''0xabc'', JNumber 1] 0 = (Resolved (JBool True), 1)"
    and x4: "invoke testnet handle ''usersActiveX4Levels'' [JString ''0xabc'', JNumber 12] 0 = (Resolved (JBool False), 1)"
    by (simp_all add: testnet_def)
  have down: "invoke offline handle name ps 0 = (Rejected (LibraryFault ''could not detect network''), 0)" for name ps
    by (simp add: offline_def)
  have same: "ready\<lparr>world := 0, console := k\<rparr> = ready\<lparr>console := k\<rparr>" for k
    by (simp add: ready_eq)
  note t = activity_checks_return_the_boolean [OF c, where userAddress = "''0xabc''", unfolded w l]
  have a: "usersActiveX3Levels testnet ready ''0xabc'' 1 = (Resolved (JBool True), ready\<lparr>world := 1\<rparr>)"
    using t [where lib = testnet and level = 1 and active = True and w = 1] x3 by blast
  have b: "usersActiveX4Levels testnet ready ''0xabc'' 12 = (Resolved (JBool False), ready\<lparr>world := 1\<rparr>)"
    using t [where lib = testnet and level = 12 and active = False and w = 1] x4 by blast
  have d: "usersActiveX3Levels offline ready ''0xabc'' 1 =
       (Resolved JNull, ready\<lparr>console := [(''Error fetching usersActiveX3Levels:'', LibraryFault ''could not detect network'')]\<rparr>)"
    using t [where lib = offline and level = 1 and w = 0 and err = "LibraryFault ''could not detect network''"] down same
    by simp
  have e: "usersActiveX4Levels offline ready ''0xabc'' 12 =
       (Resolved JNull, ready\<lparr>console := [(''Error fetching usersActiveX4Levels:'', LibraryFault ''could not detect network'')]\<rparr>)"
    using t [where lib = offline and level = 12 and w = 0 and err = "LibraryFault ''could not detect network''"] down same
    by simp
  from c x3 x4 a b d e show ?thesis
    unfolding w by blast
qed

text \<open>
  C7. With the contract handle set, \<open>userX3Matrix\<close> resolves to whatever value the read
  call \<open>usersX3Matrix\<close> yields, unchanged (an arbitrary-precision integer stays one), and
  to \<open>null\<close> after one console line when the read call throws.
\<close>

theorem userX3Matrix_returns_raw_result:
  assumes "contract g = Some c"
  shows "(invoke lib c ''usersX3Matrix'' [JString userAddress, JNumber level] (world g) = (Resolved v, w) \<longrightarrow>
          userX3Matrix lib g userAddress level = (Resolved v, g\<lparr>world := w\<rparr>))
       \<and> (invoke lib c ''usersX3Matrix'' [JString userAddress, JNumber level] (world g) = (Rejected err, w) \<longrightarrow>
          userX3Matrix lib g userAddress level =
            (Resolved JNull, g\<lparr>world := w, console := console g @ [(''Error fetching usersX3Matrix:'', err)]\<rparr>))"
  using assms by (simp add: userX3Matrix_def flow)

theorem userX3Matrix_returns_raw_result_witness:
  "contract ready = Some handle
   \<and> invoke testnet handle ''usersX3Matrix'' [JString ''0xabc'', JNumber 1] (world ready) =
       (Resolved (JObject
          [(''currentReferrer'', JString ''0x1111''),
           (''referrals'', JArray [JString ''0x2222'']),
           (''blocked'', JBool False)]), 1)
   \<and> userX3Matrix testnet ready ''0xabc'' 1 =
       (Resolved (JObject
          [(''currentReferrer'', JString ''0x1111''),
           (''referrals'', JArray [JString ''0x2222'']),
           (''blocked'', JBool False)]),
        ready\<lparr>world := 1\<rparr>)
   \<and> userX3Matrix offline ready ''0xabc'' 1 =
       (Resolved JNull, ready\<lparr>console := [(''Error fetching usersX3Matrix:'', LibraryFault ''could not detect network'')]\<rparr>)"
proof -
  have c: "contract ready = Some handle" and w: "world ready = 0" and l: "console ready = []"
    by (simp_all add: ready_eq)
  have x3: "invoke testnet handle ''usersX3Matrix'' [JString ''0xabc'', JNumber 1] 0 =
       (Resolved (JObject
          [(''currentReferrer'', JString ''0x1111''),
           (''referrals'', JArray [JString ''0x2222'']),
           (''blocked'', JBool False)]), 1)"
    by (simp add: testnet_def)
  have down: "invoke offline handle name ps 0 = (Rejected (LibraryFault ''could not detect network''), 0)" for name ps
    by (simp add: offline_def)
  have same: "ready\<lparr>world := 0, console := k\<rparr> = ready\<lparr>console := k\<rparr>" for k
    by (simp add: ready_eq)
  note t = userX3Matrix_returns_raw_result [OF c, where userAddress = "''0xabc''" and level = 1, unfolded w l]
  have a: "userX3Matrix testnet ready ''0xabc'' 1 =
       (Resolved (JObject
          [(''currentReferrer'', JString ''0x1111''),
           (''referrals'', JArray [JString ''0x2222'']),
           (''blocked'', JBool False)]),
        ready\<lparr>world := 1\<rparr>)"
    using t [where lib = testnet and w = 1] x3 by blast
  have b: "userX3Matrix offline ready ''0xabc'' 1 =
       (Resolved JNull, ready\<lparr>console := [(''Error fetching usersX3Matrix:'', LibraryFault ''could not detect network'')]\<rparr>)"
    using t [where lib = offline and w = 0 and err = "LibraryFault ''could not detect network''"] down same
    by simp
  from c x3 a b show ?thesis
    unfolding w by blast
qed

text \<open>
  C8. With the contract handle set, \<open>fetchData\<close> calls the method of the given name on
  the stored handle with the given parameters, in the current world, and resolves to the
  value that call yields, unchanged; when the call throws it resolves to \<open>null\<close> after
  one console line, and while the call hangs it stays pending.
\<close>

theorem fetchData_returns_raw_result:
  assumes "contract g = Some c"
  shows "(invoke lib c methodName params (world g) = (Resolved v, w) \<longrightarrow>
          fetchData lib g methodName params = (Resolved v, g\<lparr>world := w\<rparr>))
       \<and> (invoke lib c methodName params (world g) = (Rejected err, w) \<longrightarrow>
          fetchData lib g methodName params =
            (Resolved JNull,
             g\<lparr>world := w, console := console g @ [(''Error fetching data from '' @ methodName @ '':'', err)]\<rparr>))
       \<and> (invoke lib c methodName params (world g) = (Pending, w) \<longrightarrow>
          fetchData lib g methodName params = (Pending, g\<lparr>world := w\<rparr>))"
  using assms by (simp add: fetchData_def flow)

theorem fetchData_returns_raw_result_witness:
  "contract ready = Some handle
   \<and> invoke testnet handle ''getTotalCycles'' [JString ''0xabc'', JNumber 2, JNumber 1] (world ready) = (Resolved (BigNumber 5), 1)
   \<and> fetchData testnet ready ''getTotalCycles'' [JString ''0xabc'', JNumber 2, JNumber 1] =
       (Resolved (BigNumber 5), ready\<lparr>world := 1\<rparr>)
   \<and> invoke testnet handle ''levelPrice'' [JNumber 1] (world ready) =
       (Rejected (TypeError ''contract[methodName] is not a function''), 0)
   \<and> fetchData testnet ready ''levelPrice'' [JNumber 1] =
       (Resolved JNull,
        ready\<lparr>console := [(''Error fetching data from levelPrice:'', TypeError ''contract[methodName] is not a function'')]\<rparr>)"
proof -
  have c: "contract ready = Some handle" and w: "world ready = 0" and l: "console ready = []"
    by (simp_all add: ready_eq)
  have cycles: "invoke testnet handle ''getTotalCycles'' [JString ''0xabc'', JNumber 2, JNumber 1] 0 = (Resolved (BigNumber 5), 1)"
    and missing: "invoke testnet handle ''levelPrice'' [JNumber 1] 0 =
       (Rejected (TypeError ''contract[methodName] is not a function''), 0)"
    by (simp_all add: testnet_def)
  have same: "ready\<lparr>world := 0, console := k\<rparr> = ready\<lparr>console := k\<rparr>" for k
    by (simp add: ready_eq)
  note t = fetchData_returns_raw_result [OF c, where lib = testnet, unfolded w l]
  have a: "fetchData testnet ready ''getTotalCycles'' [JString ''0xabc'', JNumber 2, JNumber 1] =
       (Resolved (BigNumber 5), ready\<lparr>world := 1\<rparr>)"
    using t [where methodName = "''getTotalCycles''" and w = 1] cycles by blast
  have b: "fetchData testnet ready ''levelPrice'' [JNumber 1] =
       (Resolved JNull,
        ready\<lparr>console := [(''Error fetching data from levelPrice:'', TypeError ''contract[methodName] is not a function'')]\<rparr>)"
    using t [where methodName = "''levelPrice''" and params = "[JNumber 1]" and w = 0
        and err = "TypeError ''contract[methodName] is not a function''"] missing same
    by simp
  from c cycles missing a b show ?thesis
    unfolding w by blast
qed

section \<open>What the accessors leave alone\<close>

lemma try_catch_frame:
  "provider (snd (try_catch message body g)) = provider g"
  "contract (snd (try_catch message body g)) = contract g"
proof -
  obtain outcome w where body: "body = (outcome, w)"
    by (cases body)
  show "provider (snd (try_catch message body g)) = provider g"
    unfolding body by (cases outcome) (simp_all add: try_catch_def console_error_def)
  show "contract (snd (try_catch message body g)) = contract g"
    unfolding body by (cases outcome) (simp_all add: try_catch_def console_error_def)
qed

text \<open>What \<open>init\<close> writes when both constructors succeed.\<close>

lemma init_success:
  assumes "newJsonRpcProvider lib (''https://bsc-testnet.infura.io/v3/'' @ INFURA_PROJECT_ID) = Inr p"
    and "newContract lib CONTRACT_ADDRESS p = Inr c"
  shows "init lib g = g\<lparr>provider := Some p, contract := Some c\<rparr>"
  using assms by (simp add: init_def)

text \<open>
  C9. No accessor changes the two state cells: after \<open>fetchData\<close>, \<open>writeData\<close>,
  \<open>users\<close> or any of the level, matrix and count accessors, on every input and whether
  the call resolved, threw or hangs, \<open>provider\<close> and \<open>contract\<close> are what they were.
  \<open>writeData\<close> derives a signing handle of its own: with the provider \<open>p\<close> and the
  handle \<open>c\<close> stored, it calls the mutating method on \<open>c.connect(p.getSigner())\<close>, not
  on \<open>c\<close>, awaits the confirmation, and still leaves \<open>c\<close> in the cell.
  Only \<open>init\<close> writes the cells (lemma \<open>init_success\<close>).
\<close>

theorem accessors_keep_provider_and_contract:
  "provider (snd (fetchData lib g methodName params)) = provider g
   \<and> contract (snd (fetchData lib g methodName params)) = contract g
   \<and> provider (snd (writeData lib g methodName params)) = provider g
   \<and> contract (snd (writeData lib g methodName params)) = contract g
   \<and> provider (snd (users lib g userAddress)) = provider g
   \<and> contract (snd (users lib g userAddress)) = contract g
   \<and> provider (snd (usersActiveX3Levels lib g userAddress level)) = provider g
   \<and> contract (snd (usersActiveX3Levels lib g userAddress level)) = contract g
   \<and> provider (snd (usersActiveX4Levels lib g userAddress level)) = provider g
   \<and> contract (snd (usersActiveX4Levels lib g userAddress level)) = contract g
   \<and> provider (snd (userX3Matrix lib g userAddress level)) = provider g
   \<and> contract (snd (userX3Matrix lib g userAddress level)) = contract g
   \<and> provider (snd (userX4Matrix lib g userAddress level)) = provider g
   \<and> contract (snd (userX4Matrix lib g userAddress level)) = contract g
   \<and> provider (snd (getTotalCycles lib g userAddress matrix level)) = provider g
   \<and> contract (snd (getTotalCycles lib g userAddress matrix level)) = contract g
   \<and> provider (snd (getPartnerCount lib g userAddress matrix level)) = provider g
   \<and> contract (snd (getPartnerCount lib g userAddress matrix level)) = contract g
   \<and> (contract g = Some c
        \<and> provider g = Some p
        \<and> getSigner lib p = Inr s
        \<and> connect lib c (Some s) = Inr contractWithSigner \<longrightarrow>
        writeData lib g methodName params =
          try_catch (''Error writing data to '' @ methodName @ '':'')
            (await (invoke lib contractWithSigner methodName params (world g)) (\<lambda>tx w.
             await (tx_wait lib tx w) (\<lambda>receipt.
             returns (Inr tx))))
            g
        \<and> contract (snd (writeData lib g methodName params)) = Some c)"
proof -
  have frame: "provider (snd (fetchData lib g methodName params)) = provider g
   \<and> contract (snd (fetchData lib g methodName params)) = contract g
   \<and> provider (snd (writeData lib g methodName params)) = provider g
   \<and> contract (snd (writeData lib g methodName params)) = contract g
   \<and> provider (snd (users lib g userAddress)) = provider g
   \<and> contract (snd (users lib g userAddress)) = contract g
   \<and> provider (snd (usersActiveX3Levels lib g userAddress level)) = provider g
   \<and> contract (snd (usersActiveX3Levels lib g userAddress level)) = contract g
   \<and> provider (snd (usersActiveX4Levels lib g userAddress level)) = provider g
   \<and> contract (snd (usersActiveX4Levels lib g userAddress level)) = contract g
   \<and> provider (snd (userX3Matrix lib g userAddress level)) = provider g
   \<and> contract (snd (userX3Matrix lib g userAddress level)) = contract g
   \<and> provider (snd (userX4Matrix lib g userAddress level)) = provider g
   \<and> contract (snd (userX4Matrix lib g userAddress level)) = contract g
   \<and> provider (snd (getTotalCycles lib g userAddress matrix level)) = provider g
   \<and> contract (snd (getTotalCycles lib g userAddress matrix level)) = contract g
   \<and> provider (snd (getPartnerCount lib g userAddress matrix level)) = provider g
   \<and> contract (snd (getPartnerCount lib g userAddress matrix level)) = contract g"
    by (cases "contract g") (simp_all add: accessor_defs try_catch_frame)
  have derives: "writeData lib g methodName params =
          try_catch (''Error writing data to '' @ methodName @ '':'')
            (await (invoke lib contractWithSigner methodName params (world g)) (\<lambda>tx w.
             await (tx_wait lib tx w) (\<lambda>receipt.
             returns (Inr tx))))
            g
        \<and> contract (snd (writeData lib g methodName params)) = Some c"
    if "contract g = Some c \<and> provider g = Some p \<and> getSigner lib p = Inr s
        \<and> connect lib c (Some s) = Inr contractWithSigner"
  proof
    from that show "writeData lib g methodName params =
          try_catch (''Error writing data to '' @ methodName @ '':'')
            (await (invoke lib contractWithSigner methodName params (world g)) (\<lambda>tx w.
             await (tx_wait lib tx w) (\<lambda>receipt.
             returns (Inr tx))))
            g"
      by (simp add: writeData_def optional_getSigner_def and_then_def)
    from that frame show "contract (snd (writeData lib g methodName params)) = Some c"
      by simp
  qed
  from frame derives show ?thesis
    by blast
qed

theorem accessors_keep_provider_and_contract_witness:
  "provider ready = Some endpoint
   \<and> contract ready = Some handle
   \<and> getSigner testnet endpoint = Inr (JsonRpcSigner endpoint)
   \<and> connect testnet handle (Some (JsonRpcSigner endpoint)) = Inr signing_handle
   \<and> signing_handle \<noteq> handle
   \<and> invoke testnet handle ''registrationExt'' [] 0 =
       (Rejected (LibraryFault ''sending a transaction requires a signer''), 0)
   \<and> invoke testnet signing_handle ''registrationExt'' [] 0 = (Resolved (TransactionResponse 42), 1)
   \<and> writeData testnet ready ''registrationExt'' [] = (Resolved (TransactionResponse 42), ready\<lparr>world := 2\<rparr>)
   \<and> provider (snd (writeData testnet ready ''registrationExt'' [])) = Some endpoint
   \<and> contract (snd (writeData testnet ready ''registrationExt'' [])) = Some handle
   \<and> provider (snd (writeData reverting ready ''registrationExt'' [])) = Some endpoint
   \<and> contract (snd (writeData reverting ready ''registrationExt'' [])) = Some handle
   \<and> provider (snd (users offline ready ''0xabc'')) = Some endpoint
   \<and> contract (snd (users offline ready ''0xabc'')) = Some handle
   \<and> provider (snd (fetchData testnet (init misconfigured (mounted 0)) ''users'' [])) = Some endpoint
   \<and> contract (snd (fetchData testnet (init misconfigured (mounted 0)) ''users'' [])) = None"
proof -
  have p: "provider ready = Some endpoint" and c: "contract ready = Some handle" and w: "world ready = 0"
    by (simp_all add: ready_eq)
  have half: "init misconfigured (mounted 0) =
      \<lparr>provider = Some endpoint, contract = None,
       console = [(''Error initializing provider or contract:'', LibraryFault ''invalid fragment'')],
       world = 0\<rparr>"
    by (simp add: init_def misconfigured_def testnet_def mounted_def endpoint_def console_error_def)
  have signer: "getSigner testnet endpoint = Inr (JsonRpcSigner endpoint)"
    by (simp add: testnet_def)
  have connected: "connect testnet handle (Some (JsonRpcSigner endpoint)) = Inr signing_handle"
    by (simp add: testnet_def handle_def signing_handle_def)
  have separate: "signing_handle \<noteq> handle"
    by (simp add: signing_handle_def handle_def)
  have refused: "invoke testnet handle ''registrationExt'' [] 0 =
       (Rejected (LibraryFault ''sending a transaction requires a signer''), 0)"
    by (simp add: testnet_def handle_def)
  have sent: "invoke testnet signing_handle ''registrationExt'' [] 0 = (Resolved (TransactionResponse 42), 1)"
    by (simp add: testnet_def signing_handle_def)
  have confirmed: "wait testnet h n = (Resolved (JObject [(''status'', JNumber 1)]), Suc n)" for h n
    by (simp add: testnet_def)
  note on_testnet = accessors_keep_provider_and_contract [of testnet ready "''registrationExt''" "[]"
      "''0xabc''" 1 2 handle endpoint "JsonRpcSigner endpoint" signing_handle]
  from on_testnet c p signer connected
  have "writeData testnet ready ''registrationExt'' [] =
          try_catch (''Error writing data to '' @ ''registrationExt'' @ '':'')
            (await (invoke testnet signing_handle ''registrationExt'' [] (world ready)) (\<lambda>tx w.
             await (tx_wait testnet tx w) (\<lambda>receipt.
             returns (Inr tx))))
            ready"
    by blast
  then have written: "writeData testnet ready ''registrationExt'' [] =
      (Resolved (TransactionResponse 42), ready\<lparr>world := 2\<rparr>)"
    by (simp add: w sent confirmed flow)
  have frames: "provider (snd (writeData testnet ready ''registrationExt'' [])) = Some endpoint
   \<and> contract (snd (writeData testnet ready ''registrationExt'' [])) = Some handle
   \<and> provider (snd (writeData reverting ready ''registrationExt'' [])) = Some endpoint
   \<and> contract (snd (writeData reverting ready ''registrationExt'' [])) = Some handle
   \<and> provider (snd (users offline ready ''0xabc'')) = Some endpoint
   \<and> contract (snd (users offline ready ''0xabc'')) = Some handle
   \<and> provider (snd (fetchData testnet (init misconfigured (mounted 0)) ''users'' [])) = Some endpoint
   \<and> contract (snd (fetchData testnet (init misconfigured (mounted 0)) ''users'' [])) = None"
    using on_testnet
      accessors_keep_provider_and_contract [of reverting ready "''registrationExt''" "[]"
        "''0xabc''" 1 2 handle endpoint "JsonRpcSigner endpoint" signing_handle]
      accessors_keep_provider_and_contract [of offline ready "''registrationExt''" "[]"
        "''0xabc''" 1 2 handle endpoint "JsonRpcSigner endpoint" signing_handle]
      accessors_keep_provider_and_contract [of testnet "init misconfigured (mounted 0)" "''users''" "[]"
        "''0xabc''" 1 2 handle endpoint "JsonRpcSigner endpoint" signing_handle]
    by (simp add: p c half)
  from p c signer connected separate refused sent written frames show ?thesis
    by blast
qed

section \<open>The hook\<close>

text \<open>
  C10. \<open>useSmartContract\<close> throws an \<open>Error\<close> when no provider component is mounted
  above the caller (the context value is \<open>undefined\<close>); it does not return \<open>null\<close>. Under
  a mounted provider it returns the context object of that render: the nine accessors
  and the provider handle of the state, and nothing else.
\<close>

theorem useSmartContract_outside_provider_throws:
  "useSmartContract (None :: 'w SmartContractContextType option) =
     Inl (Error ''useSmartContract must be used within a SmartContractProvider'')
   \<and> useSmartContract (Some (SmartContractProvider lib g)) =
     Inr \<lparr>ctx_fetchData = fetchData lib g,
          ctx_writeData = writeData lib g,
          ctx_users = users lib g,
          ctx_usersActiveX3Levels = usersActiveX3Levels lib g,
          ctx_usersActiveX4Levels = usersActiveX4Levels lib g,
          ctx_userX3Matrix = userX3Matrix lib g,
          ctx_userX4Matrix = userX4Matrix lib g,
          ctx_getPartnerCount = getPartnerCount lib g,
          ctx_getTotalCycles = getTotalCycles lib g,
          ctx_provider = provider g\<rparr>"
  by (simp add: useSmartContract_def SmartContractProvider_def)

theorem useSmartContract_outside_provider_throws_witness:
  "useSmartContract (None :: nat SmartContractContextType option) =
     Inl (Error ''useSmartContract must be used within a SmartContractProvider'')
   \<and> (case useSmartContract (Some (SmartContractProvider testnet ready)) of
         Inl err \<Rightarrow> False
       | Inr ctx \<Rightarrow>
           ctx_provider ctx = Some endpoint
         \<and> ctx_users ctx ''0xabc'' = users testnet ready ''0xabc''
         \<and> ctx_writeData ctx ''registrationExt'' [] = writeData testnet ready ''registrationExt'' [])"
proof -
  note outside = conjunct1 [OF useSmartContract_outside_provider_throws [of testnet ready]]
  note inside = conjunct2 [OF useSmartContract_outside_provider_throws [of testnet ready]]
  have "provider ready = Some endpoint"
    by (simp add: ready_eq)
  with outside show ?thesis
    unfolding inside by simp
qed

end
